theory Spec2Isabelle
  imports Complex_Main
begin

section \<open>The land leaf of the land allocator (land\_leaf.cpp)\<close>

text \<open>
  Conventions of the embedding.
  \<^item> A C++ \<^verbatim>\<open>double\<close> is a \<^typ>\<open>real\<close>: comparisons and arithmetic are
    exact, NaN, infinities and rounding are not represented.
  \<^item> A period and a year are C++ \<^verbatim>\<open>int\<close>s, here \<^typ>\<open>int\<close> (the values
    are far from the overflow range).
  \<^item> A per-period vector (\<^verbatim>\<open>objects::PeriodVector<double>\<close>) is a function from
    the period to the value. The source indexes it with \<^verbatim>\<open>operator[]\<close> and
    relies on the caller for an index in range.
  \<^item> Member functions take the object and return the updated object; the global
    marketplace is passed and returned where the function writes to it.
\<close>

type_synonym period_vector = "int \<Rightarrow> real"

subsection \<open>Collaborators whose code is outside land\_leaf.cpp\<close>

text \<open>
  The carbon content calculator owned by the leaf (\<^verbatim>\<open>ICarbonCalc\<close>): the values
  its getters return and the values its setters store.
\<close>

record carbon_calc =
  actualAboveGroundCarbonDensity :: "int \<Rightarrow> real"
  actualBelowGroundCarbonDensity :: "int \<Rightarrow> real"
  aboveGroundCarbonSubsidyDiscountFactor :: real
  belowGroundCarbonSubsidyDiscountFactor :: real
  netLandUseChangeEmission :: "int \<Rightarrow> real"
  totalLandUse :: "int \<Rightarrow> real"
  soilTimeScale :: int

definition setTotalLandUse :: "real \<Rightarrow> int \<Rightarrow> carbon_calc \<Rightarrow> carbon_calc" where
  "setTotalLandUse aLandUse aPeriod c = c\<lparr>totalLandUse := (totalLandUse c)(aPeriod := aLandUse)\<rparr>"

text \<open>
  The discrete choice function of the level above (\<^verbatim>\<open>IDiscreteChoice\<close>), passed to
  the leaf as \<^verbatim>\<open>aChoiceFnAbove\<close>. Its three operations are parameters.
\<close>

record discrete_choice =
  calcUnnormalizedShare :: "real \<Rightarrow> real \<Rightarrow> int \<Rightarrow> real"
  calcImpliedCost :: "real \<Rightarrow> real \<Rightarrow> int \<Rightarrow> real"
  calcShareWeight :: "real \<Rightarrow> real \<Rightarrow> int \<Rightarrow> real"

text \<open>
  What the leaf reads from the global scenario and from its surroundings: the model time
  (\<^verbatim>\<open>getmaxper\<close>, \<^verbatim>\<open>getper_to_yr\<close>, \<^verbatim>\<open>getyr_to_per\<close>), the end year of the
  carbon model (\<^verbatim>\<open>CarbonModelUtils::getEndYear\<close>), the constant
  \<^verbatim>\<open>Marketplace::NO_MARKET_PRICE\<close>, the calculation step of the carbon content
  calculator (\<^verbatim>\<open>ICarbonCalc::calc\<close>) and the parent node's
  \<^verbatim>\<open>getCalibrationProfitForNewTech\<close>. All of them are parameters.
\<close>

record externals =
  maxper :: int
  per_to_yr :: "int \<Rightarrow> int"
  yr_to_per :: "int \<Rightarrow> int"
  endYear :: int
  NO_MARKET_PRICE :: real
  calc :: "int \<Rightarrow> int \<Rightarrow> carbon_calc \<Rightarrow> carbon_calc"
  parentCalibrationProfitForNewTech :: "int \<Rightarrow> real"

text \<open>
  The marketplace. A market is identified by good, region and period. Besides prices and
  accumulated demands the model keeps the list of the \<^verbatim>\<open>addToDemand\<close> calls made,
  so that a call that leaves the total unchanged is still visible.
\<close>

type_synonym market_key = "string \<times> string \<times> int"

record demand_call =
  call_market :: market_key
  call_value :: real
  call_lastValue :: real
  call_flag :: bool

record marketplace =
  price :: "market_key \<rightharpoonup> real"
  demand :: "market_key \<Rightarrow> real"
  demand_calls :: "demand_call list"

text \<open>
  Modelled from the spec: \<^verbatim>\<open>Marketplace::getPrice\<close> is not part of the sources at
  hand. It returns the price of the market, or the sentinel \<^verbatim>\<open>NO_MARKET_PRICE\<close>
  when there is no such market.
\<close>

definition getPrice :: "externals \<Rightarrow> marketplace \<Rightarrow> string \<Rightarrow> string \<Rightarrow> int \<Rightarrow> real" where
  "getPrice ext m aGoodName aRegionName aPeriod =
     (case price m (aGoodName, aRegionName, aPeriod) of
        None \<Rightarrow> NO_MARKET_PRICE ext
      | Some v \<Rightarrow> v)"

text \<open>
  Modelled from the spec: \<^verbatim>\<open>Marketplace::addToDemand\<close> is not part of the sources
  at hand. It moves the total demand of the market by the new value minus the previous
  contribution and returns the value the caller stores as its previous contribution.
\<close>

definition addToDemand ::
  "marketplace \<Rightarrow> string \<Rightarrow> string \<Rightarrow> real \<Rightarrow> real \<Rightarrow> int \<Rightarrow> bool \<Rightarrow> real \<times> marketplace" where
  "addToDemand m aGoodName aRegionName aValue aLastValue aPeriod aFlag =
     (let k = (aGoodName, aRegionName, aPeriod) in
      (aValue,
       m\<lparr>demand := (demand m)(k := demand m k + (aValue - aLastValue)),
         demand_calls := demand_calls m @
           [\<lparr>call_market = k, call_value = aValue, call_lastValue = aLastValue,
             call_flag = aFlag\<rparr>]\<rparr>))"

subsection \<open>Logging and fatal exits\<close>

datatype log_level = WARNING | ERROR

datatype log_text =
  NegativeShareWeight int string
  | CalPriceTooLow string string

type_synonym log_msg = "log_level \<times> log_text"

text \<open>The only way the leaf stops the run: a message on the main log, then \<^verbatim>\<open>exit( -1 )\<close>.\<close>

datatype error = Exit log_msg

subsection \<open>The leaf\<close>

record leaf =
  mName :: string
  mLandAllocation :: period_vector
  mReadinLandAllocation :: period_vector
  mShare :: period_vector
  mProfitRate :: period_vector
  mProfitScaler :: period_vector
  mCalibrationProfitRate :: period_vector
  mCarbonPriceIncreaseRate :: period_vector
  mCarbonContentCalc :: carbon_calc
  mMinAboveGroundCDensity :: real
  mMinBelowGroundCDensity :: real
  mSocialDiscountRate :: real
  mIsNewTech :: bool
  mGhostShareNumeratorForLeaf :: real
  mNewTechStartYear :: int
  mIsLandExpansionCost :: bool
  mLandExpansionCostName :: string
  mLastCalcCO2Value :: real
  mLastCalcExpansionValue :: real

text \<open>
  \<^verbatim>\<open>LandLeaf::initCalc\<close>. After the first two periods an unset profit scaler
  (\<open>-1\<close>) and an unset share (\<open>-1\<close>) take the value of the period before. A profit
  scaler that is still \<open>-1\<close> is logged as an error and the run exits.
\<close>

definition initCalc :: "string \<Rightarrow> int \<Rightarrow> leaf \<Rightarrow> error + leaf" where
  "initCalc aRegionName aPeriod l =
     (let l2 =
        (if aPeriod > 1 then
           (let l1 = (if mProfitScaler l aPeriod = -1
                      then l\<lparr>mProfitScaler := (mProfitScaler l)(aPeriod := mProfitScaler l (aPeriod - 1))\<rparr>
                      else l)
            in if mShare l1 aPeriod = -1
               then l1\<lparr>mShare := (mShare l1)(aPeriod := mShare l1 (aPeriod - 1))\<rparr>
               else l1)
         else l)
      in if mProfitScaler l2 aPeriod = -1
         then Inl (Exit (ERROR, NegativeShareWeight aPeriod aRegionName))
         else Inr l2)"

text \<open>\<^verbatim>\<open>LandLeaf::setInitShares\<close>: returns the share times the profit rate.\<close>

definition setInitShares :: "string \<Rightarrow> real \<Rightarrow> int \<Rightarrow> leaf \<Rightarrow> real \<times> leaf" where
  "setInitShares aRegionName aLandAllocationAbove aPeriod l =
     (let l1 = (if aLandAllocationAbove > 0
                then l\<lparr>mShare := (mShare l)(aPeriod := mReadinLandAllocation l aPeriod / aLandAllocationAbove)\<rparr>
                else l\<lparr>mShare := (mShare l)(aPeriod := 0)\<rparr>)
      in (mShare l1 aPeriod * mProfitRate l1 aPeriod, l1))"

text \<open>
  \<^verbatim>\<open>LandLeaf::getCarbonSubsidy\<close>. \<open>carbonSubsidyValue\<close> is the local variable
  \<^verbatim>\<open>carbonSubsidy\<close> of the branch taken when a positive carbon price exists;
  the source asserts \<^verbatim>\<open>carbonSubsidy >= 0.0\<close> there and returns it as it is.
\<close>

definition dollar_conversion_75_90 :: real where
  "dollar_conversion_75_90 = 2212 / 1000"

definition conversionFactor :: real where
  "conversionFactor = 1000000"

definition carbonSubsidyValue :: "externals \<Rightarrow> real \<Rightarrow> int \<Rightarrow> leaf \<Rightarrow> real" where
  "carbonSubsidyValue ext carbonPrice aPeriod l =
     (let carbonPrice1 = carbonPrice / dollar_conversion_75_90;
          year = per_to_yr ext aPeriod;
          incrementalAboveCDensity =
            actualAboveGroundCarbonDensity (mCarbonContentCalc l) year - mMinAboveGroundCDensity l;
          incrementalBelowCDensity =
            actualBelowGroundCarbonDensity (mCarbonContentCalc l) year - mMinBelowGroundCDensity l
      in (incrementalAboveCDensity * aboveGroundCarbonSubsidyDiscountFactor (mCarbonContentCalc l)
          + incrementalBelowCDensity * belowGroundCarbonSubsidyDiscountFactor (mCarbonContentCalc l))
         * carbonPrice1 * (mSocialDiscountRate l - mCarbonPriceIncreaseRate l aPeriod)
         * conversionFactor)"

definition getCarbonSubsidy :: "externals \<Rightarrow> marketplace \<Rightarrow> string \<Rightarrow> int \<Rightarrow> leaf \<Rightarrow> real" where
  "getCarbonSubsidy ext m aRegionName aPeriod l =
     (let carbonPrice = getPrice ext m ''CO2_LUC'' aRegionName aPeriod in
      if carbonPrice \<noteq> NO_MARKET_PRICE ext \<and> carbonPrice > 0
      then carbonSubsidyValue ext carbonPrice aPeriod l
      else 0)"

text \<open>\<^verbatim>\<open>LandLeaf::setProfitRate\<close>.\<close>

definition setProfitRate ::
  "externals \<Rightarrow> marketplace \<Rightarrow> string \<Rightarrow> string \<Rightarrow> real \<Rightarrow> int \<Rightarrow> leaf \<Rightarrow> leaf" where
  "setProfitRate ext m aRegionName aProductName aProfitRate aPeriod l =
     (let adjustedProfitRate =
        (if mIsLandExpansionCost l
         then aProfitRate - getPrice ext m (mLandExpansionCostName l) aRegionName aPeriod
         else aProfitRate)
      in l\<lparr>mProfitRate := (mProfitRate l)
             (aPeriod := max (adjustedProfitRate + getCarbonSubsidy ext m aRegionName aPeriod l) 0)\<rparr>)"

text \<open>
  \<^verbatim>\<open>LandLeaf::calculateCalibrationProfitRate\<close>: nothing is stored for a new
  technology (the assignment in that branch is commented out in the source).
\<close>

definition calculateCalibrationProfitRate ::
  "string \<Rightarrow> real \<Rightarrow> discrete_choice \<Rightarrow> int \<Rightarrow> leaf \<Rightarrow> leaf" where
  "calculateCalibrationProfitRate aRegionName aAverageProfitRateAbove aChoiceFnAbove aPeriod l =
     (if \<not> mIsNewTech l
      then l\<lparr>mCalibrationProfitRate := (mCalibrationProfitRate l)
               (aPeriod := calcImpliedCost aChoiceFnAbove (mShare l aPeriod) aAverageProfitRateAbove aPeriod)\<rparr>
      else l)"

definition setCarbonPriceIncreaseRate :: "real \<Rightarrow> int \<Rightarrow> leaf \<Rightarrow> leaf" where
  "setCarbonPriceIncreaseRate aCarbonPriceIncreaseRate aPeriod l =
     l\<lparr>mCarbonPriceIncreaseRate := (mCarbonPriceIncreaseRate l)(aPeriod := aCarbonPriceIncreaseRate)\<rparr>"

definition setSoilTimeScale :: "int \<Rightarrow> leaf \<Rightarrow> leaf" where
  "setSoilTimeScale aTimeScale l =
     l\<lparr>mCarbonContentCalc := (mCarbonContentCalc l)\<lparr>soilTimeScale := aTimeScale\<rparr>\<rparr>"

text \<open>
  \<^verbatim>\<open>LandLeaf::calcLandShares\<close>: the unnormalized share of the leaf. The function
  writes no member of the leaf.
\<close>

definition calcLandShares :: "string \<Rightarrow> discrete_choice \<Rightarrow> int \<Rightarrow> leaf \<Rightarrow> real" where
  "calcLandShares aRegionName aChoiceFnAbove aPeriod l =
     calcUnnormalizedShare aChoiceFnAbove
       (if mProfitRate l aPeriod \<le> 0 then 0 else mProfitScaler l aPeriod)
       (mProfitRate l aPeriod) aPeriod"

text \<open>
  \<^verbatim>\<open>LandLeaf::calculateProfitScalers\<close>: returns the leaf and the messages written
  to the main log.
\<close>

definition calculateProfitScalers ::
  "externals \<Rightarrow> string \<Rightarrow> discrete_choice \<Rightarrow> int \<Rightarrow> leaf \<Rightarrow> leaf \<times> log_msg list" where
  "calculateProfitScalers ext aRegionName aChoiceFnAbove aPeriod l =
     (let l1 =
        (if mIsNewTech l then
           (let la = l\<lparr>mCalibrationProfitRate := (mCalibrationProfitRate l)
                        (aPeriod := parentCalibrationProfitForNewTech ext aPeriod)\<rparr>;
                newTechProfitScaler =
                  calcShareWeight aChoiceFnAbove (mGhostShareNumeratorForLeaf la)
                    (mCalibrationProfitRate la aPeriod) aPeriod;
                lb = la\<lparr>mProfitScaler := (mProfitScaler la)(aPeriod := 0)\<rparr>
            in lb\<lparr>mProfitScaler := (mProfitScaler lb)
                    (yr_to_per ext (mNewTechStartYear lb) := newTechProfitScaler)\<rparr>)
         else if mCalibrationProfitRate l aPeriod = 0 \<or> mProfitRate l aPeriod = 0 then
           l\<lparr>mProfitScaler := (mProfitScaler l)(aPeriod := 0)\<rparr>
         else
           l\<lparr>mProfitScaler := (mProfitScaler l)
               (aPeriod := calcShareWeight aChoiceFnAbove (mShare l aPeriod) (mProfitRate l aPeriod) aPeriod)\<rparr>)
      in if mProfitScaler l1 aPeriod < 0
         then (l1\<lparr>mProfitScaler := (mProfitScaler l1)(aPeriod := 0)\<rparr>,
               [(WARNING, CalPriceTooLow aRegionName (mName l1))])
         else (l1, []))"

text \<open>
  \<^verbatim>\<open>LandLeaf::calcLandAllocation\<close>. The source asserts that the share of the
  period lies in \<open>[0, 1]\<close>; \<open>calcLandAllocation_assertion\<close> is that condition.
\<close>

definition calcLandAllocation_assertion :: "int \<Rightarrow> leaf \<Rightarrow> bool" where
  "calcLandAllocation_assertion aPeriod l = (mShare l aPeriod \<ge> 0 \<and> mShare l aPeriod \<le> 1)"

definition calcLandAllocation ::
  "string \<Rightarrow> real \<Rightarrow> int \<Rightarrow> leaf \<times> marketplace \<Rightarrow> leaf \<times> marketplace" where
  "calcLandAllocation aRegionName aLandAllocationAbove aPeriod s =
     (let l = fst s; m = snd s;
          l1 = (if aLandAllocationAbove > 0
                then l\<lparr>mLandAllocation := (mLandAllocation l)(aPeriod := aLandAllocationAbove * mShare l aPeriod)\<rparr>
                else l\<lparr>mLandAllocation := (mLandAllocation l)(aPeriod := 0)\<rparr>);
          l2 = l1\<lparr>mCarbonContentCalc := setTotalLandUse (mLandAllocation l1 aPeriod) aPeriod (mCarbonContentCalc l1)\<rparr>
      in if mIsLandExpansionCost l2
         then (let r = addToDemand m (mLandExpansionCostName l2) aRegionName
                         (mLandAllocation l2 aPeriod) (mLastCalcExpansionValue l2) aPeriod True
               in (l2\<lparr>mLastCalcExpansionValue := fst r\<rparr>, snd r))
         else (l2, m))"

text \<open>\<^verbatim>\<open>LandLeaf::calcLUCEmissions\<close>.\<close>

definition calcLUCEmissions ::
  "externals \<Rightarrow> string \<Rightarrow> int \<Rightarrow> int \<Rightarrow> leaf \<times> marketplace \<Rightarrow> leaf \<times> marketplace" where
  "calcLUCEmissions ext aRegionName aPeriod aEndYear s =
     (let l = fst s; m = snd s;
          l1 = l\<lparr>mCarbonContentCalc := calc ext aPeriod aEndYear (mCarbonContentCalc l)\<rparr>
      in if aEndYear \<noteq> endYear ext \<or> aPeriod = maxper ext - 1
         then (let LUCEmissions = netLandUseChangeEmission (mCarbonContentCalc l1) (per_to_yr ext aPeriod);
                   r = addToDemand m ''CO2_LUC'' aRegionName LUCEmissions (mLastCalcCO2Value l1) aPeriod False
               in (l1\<lparr>mLastCalcCO2Value := fst r\<rparr>, snd r))
         else (l1, m))"

subsection \<open>The operations as calls on a leaf and its marketplace\<close>

text \<open>
  The member functions of the leaf that may change state, as one datatype of calls.
  \<^verbatim>\<open>setUnmanagedLandProfitRate\<close> and \<^verbatim>\<open>adjustProfitScalers\<close> have empty bodies
  in \<^verbatim>\<open>LandLeaf\<close>. A call either ends the run (\<open>Inl\<close>) or returns the leaf and
  the marketplace; the value a function returns to its caller is dropped here.
\<close>

datatype leaf_op =
  InitCalc int
  | SetInitShares real int
  | SetProfitRate string real int
  | SetUnmanagedLandProfitRate real int
  | CalculateCalibrationProfitRate real int
  | SetCarbonPriceIncreaseRate real int
  | SetSoilTimeScale int
  | CalcLandShares int
  | CalculateProfitScalers int
  | AdjustProfitScalers int
  | CalcLandAllocation real int
  | CalcLUCEmissions int int

fun call ::
  "externals \<Rightarrow> discrete_choice \<Rightarrow> string \<Rightarrow> leaf_op \<Rightarrow> leaf \<times> marketplace
     \<Rightarrow> error + leaf \<times> marketplace" where
  "call ext cf rg (InitCalc p) (l, m) =
     (case initCalc rg p l of Inl e \<Rightarrow> Inl e | Inr l' \<Rightarrow> Inr (l', m))"
| "call ext cf rg (SetInitShares a p) (l, m) = Inr (snd (setInitShares rg a p l), m)"
| "call ext cf rg (SetProfitRate pn r p) (l, m) = Inr (setProfitRate ext m rg pn r p l, m)"
| "call ext cf rg (SetUnmanagedLandProfitRate a p) (l, m) = Inr (l, m)"
| "call ext cf rg (CalculateCalibrationProfitRate a p) (l, m) =
     Inr (calculateCalibrationProfitRate rg a cf p l, m)"
| "call ext cf rg (SetCarbonPriceIncreaseRate r p) (l, m) = Inr (setCarbonPriceIncreaseRate r p l, m)"
| "call ext cf rg (SetSoilTimeScale t) (l, m) = Inr (setSoilTimeScale t l, m)"
| "call ext cf rg (CalcLandShares p) (l, m) = Inr (l, m)"
| "call ext cf rg (CalculateProfitScalers p) (l, m) = Inr (fst (calculateProfitScalers ext rg cf p l), m)"
| "call ext cf rg (AdjustProfitScalers p) (l, m) = Inr (l, m)"
| "call ext cf rg (CalcLandAllocation a p) (l, m) = Inr (calcLandAllocation rg a p (l, m))"
| "call ext cf rg (CalcLUCEmissions p y) (l, m) = Inr (calcLUCEmissions ext rg p y (l, m))"

text \<open>A sequence of calls stops at the first fatal exit.\<close>

fun run ::
  "externals \<Rightarrow> discrete_choice \<Rightarrow> string \<Rightarrow> leaf_op list \<Rightarrow> leaf \<times> marketplace
     \<Rightarrow> error + leaf \<times> marketplace" where
  "run ext cf rg [] s = Inr s"
| "run ext cf rg (op # ops) s =
     (case call ext cf rg op s of Inl e \<Rightarrow> Inl e | Inr s' \<Rightarrow> run ext cf rg ops s')"

text \<open>
  The calls the solver repeats with trial prices within a period: setting the profit rate,
  computing the unnormalized share, computing the allocation.
\<close>

fun isTrialEvaluation :: "leaf_op \<Rightarrow> bool" where
  "isTrialEvaluation (SetProfitRate pn r p) = True"
| "isTrialEvaluation (CalcLandShares p) = True"
| "isTrialEvaluation (CalcLandAllocation a p) = True"
| "isTrialEvaluation _ = False"

subsection \<open>A concrete region for evaluation\<close>

text \<open>
  Five periods of 15 years from 1990, a carbon model that ends in 2095, a choice function
  with weight \<open>scaler * profit\<close>, and a maize leaf with two calibrated periods.
\<close>

definition carbon0 :: carbon_calc where
  "carbon0 = \<lparr>actualAboveGroundCarbonDensity = (\<lambda>y. 5),
              actualBelowGroundCarbonDensity = (\<lambda>y. 8),
              aboveGroundCarbonSubsidyDiscountFactor = 1,
              belowGroundCarbonSubsidyDiscountFactor = 1 / 2,
              netLandUseChangeEmission = (\<lambda>y. 0),
              totalLandUse = (\<lambda>p. 0),
              soilTimeScale = 40\<rparr>"

definition ext0 :: externals where
  "ext0 = \<lparr>maxper = 5,
           per_to_yr = (\<lambda>p. 1990 + 15 * p),
           yr_to_per = (\<lambda>y. (y - 1990) div 15),
           endYear = 2095,
           NO_MARKET_PRICE = 1000000000000,
           calc = (\<lambda>p y c. c\<lparr>netLandUseChangeEmission :=
                     (netLandUseChangeEmission c)(1990 + 15 * p := totalLandUse c (p - 1) - totalLandUse c p)\<rparr>),
           parentCalibrationProfitForNewTech = (\<lambda>p. 2)\<rparr>"

definition cf0 :: discrete_choice where
  "cf0 = \<lparr>calcUnnormalizedShare = (\<lambda>scaler profit p. scaler * profit),
          calcImpliedCost = (\<lambda>share avg p. share * avg),
          calcShareWeight = (\<lambda>share profit p. share / profit)\<rparr>"

definition mkt0 :: marketplace where
  "mkt0 = \<lparr>price = Map.empty, demand = (\<lambda>k. 0), demand_calls = []\<rparr>"

definition mkt1 :: marketplace where
  "mkt1 = \<lparr>price = [(''CO2_LUC'', ''USA'', 2) \<mapsto> 2212 / 100],
           demand = (\<lambda>k. 0), demand_calls = []\<rparr>"

definition leaf0 :: leaf where
  "leaf0 = \<lparr>mName = ''Corn'',
            mLandAllocation = (\<lambda>p. 100),
            mReadinLandAllocation = (\<lambda>p. 100),
            mShare = (\<lambda>p. if p \<le> 1 then 1 / 2 else -1),
            mProfitRate = (\<lambda>p. if p = 0 then 10 else if p = 1 then 12 else 0),
            mProfitScaler = (\<lambda>p. if p \<le> 1 then 3 else -1),
            mCalibrationProfitRate = (\<lambda>p. if p \<le> 1 then 4 else 0),
            mCarbonPriceIncreaseRate = (\<lambda>p. 1 / 100),
            mCarbonContentCalc = carbon0,
            mMinAboveGroundCDensity = 1,
            mMinBelowGroundCDensity = 2,
            mSocialDiscountRate = 5 / 100,
            mIsNewTech = False,
            mGhostShareNumeratorForLeaf = 1 / 4,
            mNewTechStartYear = 2020,
            mIsLandExpansionCost = False,
            mLandExpansionCostName = [],
            mLastCalcCO2Value = 0,
            mLastCalcExpansionValue = 0\<rparr>"

text \<open>An entrant (new technology) that starts in 2020, that is in period 2.\<close>

definition leafNew :: leaf where
  "leafNew = leaf0\<lparr>mName := ''Biomass'', mIsNewTech := True,
                  mShare := (\<lambda>p. -1), mProfitScaler := (\<lambda>p. -1)\<rparr>"

text \<open>A leaf whose share of period 3 was never set, with a positive profit rate there.\<close>

definition leafUnset :: leaf where
  "leafUnset = leaf0\<lparr>mProfitRate := (\<lambda>p. 12), mCalibrationProfitRate := (\<lambda>p. 4)\<rparr>"

text \<open>Two sequences of calls: a period's start, and two solver iterations of period 1.\<close>

definition ops0 :: "leaf_op list" where
  "ops0 = [SetProfitRate ''Corn'' (-5) 2, InitCalc 2, CalcLandShares 2, CalcLandAllocation 200 2,
           CalcLUCEmissions 2 2020]"

definition ops1 :: "leaf_op list" where
  "ops1 = [SetProfitRate ''Corn'' 14 1, CalcLandShares 1, CalcLandAllocation 200 1,
           SetProfitRate ''Corn'' 9 1, CalcLandShares 1, CalcLandAllocation 200 1]"

section \<open>Properties\<close>

lemmas example_defs = carbon0_def ext0_def cf0_def mkt0_def mkt1_def leaf0_def leafNew_def
  leafUnset_def

lemmas leaf_op_defs = initCalc_def setInitShares_def setProfitRate_def
  calculateCalibrationProfitRate_def setCarbonPriceIncreaseRate_def setSoilTimeScale_def
  calculateProfitScalers_def calcLandAllocation_def calcLUCEmissions_def addToDemand_def
  setTotalLandUse_def

lemmas subsidy_defs = getCarbonSubsidy_def getPrice_def carbonSubsidyValue_def
  dollar_conversion_75_90_def conversionFactor_def

subsection \<open>Land-use-change emissions and the carbon market\<close>

text \<open>
  C1 (as the code has it). \<^verbatim>\<open>calcLUCEmissions\<close> for period \<open>p\<close> and horizon year
  \<open>Y\<close> calls \<^verbatim>\<open>addToDemand\<close> on the \<^verbatim>\<open>CO2_LUC\<close> market exactly when \<open>Y\<close>
  differs from the end year of the carbon model or \<open>p\<close> is the last period: it then
  submits the net land-use-change emission of the period's year against the previously
  stored contribution and stores the returned value. When \<open>Y\<close> is the end year and \<open>p\<close>
  is not the last period, the marketplace and the stored contribution are unchanged.
\<close>

theorem calcLUCEmissions_submission:
  fixes ext :: externals and rg :: string and p Y :: int and l :: leaf and m :: marketplace
  defines "r \<equiv> calcLUCEmissions ext rg p Y (l, m)"
    and "e \<equiv> netLandUseChangeEmission (calc ext p Y (mCarbonContentCalc l)) (per_to_yr ext p)"
  shows "(Y \<noteq> endYear ext \<or> p = maxper ext - 1 \<longrightarrow>
            demand_calls (snd r) = demand_calls m @
              [\<lparr>call_market = (''CO2_LUC'', rg, p), call_value = e,
                call_lastValue = mLastCalcCO2Value l, call_flag = False\<rparr>]
            \<and> demand (snd r) (''CO2_LUC'', rg, p) = demand m (''CO2_LUC'', rg, p) + (e - mLastCalcCO2Value l)
            \<and> mLastCalcCO2Value (fst r) = e)
       \<and> (Y = endYear ext \<and> p \<noteq> maxper ext - 1 \<longrightarrow>
            snd r = m \<and> mLastCalcCO2Value (fst r) = mLastCalcCO2Value l)"
  unfolding r_def e_def
  by (simp add: calcLUCEmissions_def addToDemand_def Let_def)

theorem calcLUCEmissions_submission_witness:
  "2005 \<noteq> endYear ext0
   \<and> demand_calls (snd (calcLUCEmissions ext0 ''USA'' 1 2005 (leaf0, mkt0))) =
       [\<lparr>call_market = (''CO2_LUC'', ''USA'', 1), call_value = 0,
         call_lastValue = 0, call_flag = False\<rparr>]
   \<and> (2095 = endYear ext0 \<and> 1 \<noteq> maxper ext0 - 1)
   \<and> snd (calcLUCEmissions ext0 ''USA'' 1 2095 (leaf0, mkt0)) = mkt0"
  using calcLUCEmissions_submission [where ext = ext0 and rg = "''USA''" and p = 1 and Y = 2005 and l = leaf0 and m = mkt0]
        calcLUCEmissions_submission [where ext = ext0 and rg = "''USA''" and p = 1 and Y = 2095 and l = leaf0 and m = mkt0]
  by (simp add: example_defs)

text \<open>
  C1 (as the claim states it) fails. With the end year 2095 and five periods, the call for
  period 1 with the intermediate horizon 2005 does submit to the market, although 2005 is
  not the end year and period 1 is not the last period; and the call for period 1 with the
  horizon 2095, the end year, submits nothing.
\<close>

theorem calcLUCEmissions_intermediate_horizon_counterexample:
  "demand_calls (snd (calcLUCEmissions ext0 ''USA'' 1 2005 (leaf0, mkt0))) \<noteq> demand_calls mkt0
   \<and> \<not> (2005 = endYear ext0 \<or> 1 = maxper ext0 - 1)
   \<and> 2095 = endYear ext0 \<and> 1 \<noteq> maxper ext0 - 1
   \<and> calcLUCEmissions ext0 ''USA'' 1 2095 (leaf0, mkt0)
       = (leaf0\<lparr>mCarbonContentCalc := calc ext0 1 2095 carbon0\<rparr>, mkt0)"
  by (simp add: calcLUCEmissions_def addToDemand_def Let_def example_defs)

subsection \<open>The unnormalized share\<close>

text \<open>
  C2. When the profit rate of the period is not positive, \<^verbatim>\<open>calcLandShares\<close> hands the
  scaler 0 to \<^verbatim>\<open>calcUnnormalizedShare\<close> of the choice function, whatever the calibrated
  profit scaler is; if the choice function maps the scaler 0 to the weight 0, the leaf's
  unnormalized share is 0.
\<close>

theorem calcLandShares_nonpositive_profit:
  assumes "mProfitRate l p \<le> 0"
  shows "calcLandShares rg cf p l = calcUnnormalizedShare cf 0 (mProfitRate l p) p
       \<and> ((\<forall>r q. calcUnnormalizedShare cf 0 r q = 0) \<longrightarrow> calcLandShares rg cf p l = 0)"
  using assms by (simp add: calcLandShares_def)

theorem calcLandShares_nonpositive_profit_witness:
  "mProfitRate leaf0 2 \<le> 0 \<and> mProfitScaler leaf0 2 \<noteq> 0
   \<and> (\<forall>r q. calcUnnormalizedShare cf0 0 r q = 0)
   \<and> calcLandShares ''USA'' cf0 2 leaf0 = 0"
  using calcLandShares_nonpositive_profit [where l = leaf0 and p = 2 and rg = "''USA''" and cf = cf0]
  by (simp add: example_defs)

subsection \<open>Forward projection\<close>

text \<open>
  C4. For a period \<open>p > 1\<close>, \<^verbatim>\<open>initCalc\<close> replaces a profit scaler \<open>-1\<close> by the
  scaler of period \<open>p - 1\<close> and a share \<open>-1\<close> by the share of period \<open>p - 1\<close>. In any
  period, a profit scaler that is \<open>-1\<close> after this rule ends the run with an error
  message on the main log; otherwise the updated leaf is returned.
\<close>

theorem initCalc_copy_forward:
  fixes rg :: string and p :: int and l :: leaf
  defines "sc \<equiv> (if mProfitScaler l p = -1 then mProfitScaler l (p - 1) else mProfitScaler l p)"
    and "sh \<equiv> (if mShare l p = -1 then mShare l (p - 1) else mShare l p)"
  shows "(p > 1 \<longrightarrow>
            initCalc rg p l =
              (if sc = -1 then Inl (Exit (ERROR, NegativeShareWeight p rg))
               else Inr (l\<lparr>mProfitScaler := (mProfitScaler l)(p := sc),
                           mShare := (mShare l)(p := sh)\<rparr>)))
       \<and> (p \<le> 1 \<longrightarrow>
            initCalc rg p l =
              (if mProfitScaler l p = -1 then Inl (Exit (ERROR, NegativeShareWeight p rg))
               else Inr l))"
  unfolding sc_def sh_def
  by (simp add: initCalc_def Let_def)

theorem initCalc_copy_forward_witness:
  "(2::int) > 1
   \<and> initCalc ''USA'' 2 leaf0
       = Inr (leaf0\<lparr>mProfitScaler := (mProfitScaler leaf0)(2 := 3), mShare := (mShare leaf0)(2 := 1 / 2)\<rparr>)
   \<and> (3::int) > 1
   \<and> initCalc ''USA'' 3 leaf0 = Inl (Exit (ERROR, NegativeShareWeight 3 ''USA''))
   \<and> (1::int) \<le> 1
   \<and> initCalc ''USA'' 1 leaf0 = Inr leaf0"
  using initCalc_copy_forward [where rg = "''USA''" and p = 2 and l = leaf0]
        initCalc_copy_forward [where rg = "''USA''" and p = 3 and l = leaf0]
        initCalc_copy_forward [where rg = "''USA''" and p = 1 and l = leaf0]
  by (simp add: example_defs)

subsection \<open>Land allocation\<close>

text \<open>
  C6. After \<^verbatim>\<open>calcLandAllocation\<close> with the parent's allocation \<open>A\<close>, the allocation
  of the period is \<open>A * share\<close> when \<open>A > 0\<close> and \<open>0\<close> when \<open>A \<le> 0\<close>. A parent's
  allocation is an area, \<open>A \<ge> 0\<close>, and for every such \<open>A\<close> the allocation of the period
  equals \<open>A * share\<close>. The value written is this product or the constant 0 and no other
  period is written: no quotient is formed, and a parent allocation of 0 gives 0. With
  the share in \<open>[0, 1]\<close>, as the function asserts, the allocation lies between 0 and \<open>A\<close>.
  The share is not changed.
\<close>

theorem calcLandAllocation_product:
  fixes rg :: string and A :: real and p :: int and l :: leaf and m :: marketplace
  defines "l' \<equiv> fst (calcLandAllocation rg A p (l, m))"
  shows "(A > 0 \<longrightarrow> mLandAllocation l' p = A * mShare l p)
       \<and> (A \<le> 0 \<longrightarrow> mLandAllocation l' p = 0)
       \<and> (A \<ge> 0 \<longrightarrow> mLandAllocation l' p = A * mShare l p)
       \<and> mLandAllocation l' = (mLandAllocation l)(p := if A > 0 then A * mShare l p else 0)
       \<and> (A \<ge> 0 \<and> calcLandAllocation_assertion p l \<longrightarrow>
            0 \<le> mLandAllocation l' p \<and> mLandAllocation l' p \<le> A)
       \<and> mShare l' = mShare l"
proof -
  have w: "mLandAllocation l' = (mLandAllocation l)(p := if A > 0 then A * mShare l p else 0)"
    and sh: "mShare l' = mShare l"
    unfolding l'_def
    by (simp_all add: calcLandAllocation_def addToDemand_def setTotalLandUse_def Let_def)
  have v: "mLandAllocation l' p = (if A > 0 then A * mShare l p else 0)"
    using w by simp
  have b: "0 \<le> mLandAllocation l' p \<and> mLandAllocation l' p \<le> A"
    if "A \<ge> 0 \<and> calcLandAllocation_assertion p l"
  proof -
    from that have a: "0 \<le> A" and s0: "0 \<le> mShare l p" and s1: "mShare l p \<le> 1"
      by (simp_all add: calcLandAllocation_assertion_def)
    have "0 \<le> A * mShare l p"
      using a s0 by (rule mult_nonneg_nonneg)
    moreover have "A * mShare l p \<le> A"
      using a s1 by (simp add: mult_left_le)
    ultimately show ?thesis using v a by simp
  qed
  from v w sh b show ?thesis by auto
qed

theorem calcLandAllocation_product_witness:
  "(200::real) > 0 \<and> calcLandAllocation_assertion 1 leaf0
   \<and> mLandAllocation (fst (calcLandAllocation ''USA'' 200 1 (leaf0, mkt0))) 1 = 100
   \<and> 200 * mShare leaf0 1 = 100
   \<and> (0::real) \<le> 0 \<and> (0::real) \<ge> 0
   \<and> mLandAllocation (fst (calcLandAllocation ''USA'' 0 1 (leaf0, mkt0))) 1 = 0
   \<and> 0 * mShare leaf0 1 = 0"
  using calcLandAllocation_product [where rg = "''USA''" and A = 200 and p = 1 and l = leaf0 and m = mkt0]
        calcLandAllocation_product [where rg = "''USA''" and A = 0 and p = 1 and l = leaf0 and m = mkt0]
  by (simp add: example_defs calcLandAllocation_assertion_def)

subsection \<open>Calibration of the profit scaler\<close>

text \<open>
  C7. For a leaf that is not a new technology, \<^verbatim>\<open>calculateProfitScalers\<close> sets the
  scaler of the period to 0 when the calibration profit rate or the profit rate is 0; the
  result then does not depend on the choice function. Otherwise the scaler is
  \<^verbatim>\<open>calcShareWeight\<close> of the share and the profit rate; a negative value is replaced by
  0 and a warning is logged. The call never ends the run.
\<close>

theorem calculateProfitScalers_calibrated:
  fixes ext :: externals and rg :: string and cf :: discrete_choice and p :: int and l :: leaf
    and m :: marketplace
  assumes "\<not> mIsNewTech l"
  defines "w \<equiv> calcShareWeight cf (mShare l p) (mProfitRate l p) p"
  shows "(mCalibrationProfitRate l p = 0 \<or> mProfitRate l p = 0 \<longrightarrow>
            calculateProfitScalers ext rg cf p l = (l\<lparr>mProfitScaler := (mProfitScaler l)(p := 0)\<rparr>, []))
       \<and> (mCalibrationProfitRate l p \<noteq> 0 \<and> mProfitRate l p \<noteq> 0 \<and> 0 \<le> w \<longrightarrow>
            calculateProfitScalers ext rg cf p l = (l\<lparr>mProfitScaler := (mProfitScaler l)(p := w)\<rparr>, []))
       \<and> (mCalibrationProfitRate l p \<noteq> 0 \<and> mProfitRate l p \<noteq> 0 \<and> w < 0 \<longrightarrow>
            calculateProfitScalers ext rg cf p l =
              (l\<lparr>mProfitScaler := (mProfitScaler l)(p := 0)\<rparr>, [(WARNING, CalPriceTooLow rg (mName l))]))
       \<and> (\<exists>s. call ext cf rg (CalculateProfitScalers p) (l, m) = Inr s)"
  using assms(1) unfolding w_def
  by (simp add: calculateProfitScalers_def Let_def)

theorem calculateProfitScalers_calibrated_witness:
  "\<not> mIsNewTech leaf0
   \<and> mProfitRate leaf0 2 = 0
   \<and> calculateProfitScalers ext0 ''USA'' cf0 2 leaf0
       = (leaf0\<lparr>mProfitScaler := (mProfitScaler leaf0)(2 := 0)\<rparr>, [])
   \<and> mCalibrationProfitRate leaf0 1 \<noteq> 0 \<and> mProfitRate leaf0 1 \<noteq> 0
   \<and> 0 \<le> calcShareWeight cf0 (mShare leaf0 1) (mProfitRate leaf0 1) 1
   \<and> mProfitScaler (fst (calculateProfitScalers ext0 ''USA'' cf0 1 leaf0)) 1 = 1 / 24
   \<and> snd (calculateProfitScalers ext0 ''USA'' cf0 1 leaf0) = []
   \<and> \<not> mIsNewTech leafUnset
   \<and> mCalibrationProfitRate leafUnset 3 \<noteq> 0 \<and> mProfitRate leafUnset 3 \<noteq> 0
   \<and> calcShareWeight cf0 (mShare leafUnset 3) (mProfitRate leafUnset 3) 3 < 0
   \<and> mProfitScaler (fst (calculateProfitScalers ext0 ''USA'' cf0 3 leafUnset)) 3 = 0
   \<and> snd (calculateProfitScalers ext0 ''USA'' cf0 3 leafUnset) = [(WARNING, CalPriceTooLow ''USA'' ''Corn'')]"
  using calculateProfitScalers_calibrated [where ext = ext0 and rg = "''USA''" and cf = cf0 and p = 2 and l = leaf0]
        calculateProfitScalers_calibrated [where ext = ext0 and rg = "''USA''" and cf = cf0 and p = 1 and l = leaf0]
        calculateProfitScalers_calibrated [where ext = ext0 and rg = "''USA''" and cf = cf0 and p = 3 and l = leafUnset]
  by (simp add: example_defs)

subsection \<open>Entrants\<close>

lemma calculateProfitScalers_config:
  "mIsNewTech (fst (calculateProfitScalers ext rg cf p l)) = mIsNewTech l
   \<and> mNewTechStartYear (fst (calculateProfitScalers ext rg cf p l)) = mNewTechStartYear l"
  by (simp add: calculateProfitScalers_def Let_def)

lemma calculateProfitScalers_entrant_at:
  assumes "mIsNewTech l" and "p \<noteq> yr_to_per ext (mNewTechStartYear l)"
  shows "mProfitScaler (fst (calculateProfitScalers ext rg cf p l)) p = 0"
  using assms by (simp add: calculateProfitScalers_def Let_def)

lemma calculateProfitScalers_entrant_keeps_zero:
  assumes "mIsNewTech l" and "q \<noteq> yr_to_per ext (mNewTechStartYear l)" and "mProfitScaler l q = 0"
  shows "mProfitScaler (fst (calculateProfitScalers ext rg cf p l)) q = 0"
  using assms by (simp add: calculateProfitScalers_def Let_def)

text \<open>Calibration passes over a list of periods, on an entrant.\<close>

lemma run_calibration_keeps_zero:
  "mIsNewTech l \<Longrightarrow> q \<noteq> yr_to_per ext (mNewTechStartYear l) \<Longrightarrow> mProfitScaler l q = 0
   \<Longrightarrow> \<exists>l'. run ext cf rg (map CalculateProfitScalers ps) (l, m) = Inr (l', m)
          \<and> mProfitScaler l' q = 0"
proof (induction ps arbitrary: l)
  case Nil
  then show ?case by simp
next
  case (Cons p ps)
  let ?l1 = "fst (calculateProfitScalers ext rg cf p l)"
  have "mIsNewTech ?l1" and "q \<noteq> yr_to_per ext (mNewTechStartYear ?l1)"
    using Cons.prems(1,2) by (simp_all add: calculateProfitScalers_config)
  moreover have "mProfitScaler ?l1 q = 0"
    using Cons.prems by (rule calculateProfitScalers_entrant_keeps_zero)
  ultimately show ?case using Cons.IH [of ?l1] by simp
qed

lemma run_calibration_zero:
  "mIsNewTech l \<Longrightarrow> q \<in> set ps \<Longrightarrow> q \<noteq> yr_to_per ext (mNewTechStartYear l)
   \<Longrightarrow> \<exists>l'. run ext cf rg (map CalculateProfitScalers ps) (l, m) = Inr (l', m)
          \<and> mProfitScaler l' q = 0"
proof (induction ps arbitrary: l)
  case Nil
  then show ?case by simp
next
  case (Cons p ps)
  let ?l1 = "fst (calculateProfitScalers ext rg cf p l)"
  have n: "mIsNewTech ?l1" and s: "q \<noteq> yr_to_per ext (mNewTechStartYear ?l1)"
    using Cons.prems(1,3) by (simp_all add: calculateProfitScalers_config)
  show ?case
  proof (cases "q = p")
    case True
    then have "mProfitScaler ?l1 q = 0"
      using Cons.prems(1,3) by (simp add: calculateProfitScalers_entrant_at)
    with run_calibration_keeps_zero [OF n s, of cf rg ps m] show ?thesis by simp
  next
    case False
    then have "q \<in> set ps" using Cons.prems(2) by simp
    with Cons.IH [OF n _ s] show ?thesis by simp
  qed
qed

text \<open>
  C3 (as the code has it). For a new technology with start period \<open>s\<close>,
  \<^verbatim>\<open>calculateProfitScalers\<close> in period \<open>p\<close> sets the scaler of \<open>p\<close> to 0 unless \<open>p\<close> is
  \<open>s\<close>, and sets the scaler of \<open>s\<close> to \<^verbatim>\<open>calcShareWeight\<close> of the ghost share and the
  parent's calibration profit for new technologies in \<open>p\<close>, not to a value from historical
  shares; when \<open>p\<close> is \<open>s\<close> itself a negative value is replaced by 0. No other period's
  scaler changes. Hence after calibration over any list of periods each calibrated period
  other than \<open>s\<close>, in particular each one before \<open>s\<close>, has the scaler 0, and the
  copy-forward rule of \<^verbatim>\<open>initCalc\<close> carries a 0 into a following unset period.
\<close>

theorem calculateProfitScalers_entrant:
  fixes ext :: externals and rg :: string and cf :: discrete_choice and p q :: int and ps :: "int list"
    and l :: leaf and m :: marketplace
  assumes "mIsNewTech l"
  defines "s \<equiv> yr_to_per ext (mNewTechStartYear l)"
    and "w \<equiv> calcShareWeight cf (mGhostShareNumeratorForLeaf l) (parentCalibrationProfitForNewTech ext p) p"
    and "l' \<equiv> fst (calculateProfitScalers ext rg cf p l)"
  shows "(p \<noteq> s \<longrightarrow> mProfitScaler l' p = 0 \<and> mProfitScaler l' s = w)
       \<and> (p = s \<longrightarrow> mProfitScaler l' s = (if w < 0 then 0 else w))
       \<and> (\<forall>k. k \<noteq> p \<and> k \<noteq> s \<longrightarrow> mProfitScaler l' k = mProfitScaler l k)
       \<and> (q \<in> set ps \<and> q \<noteq> s \<longrightarrow>
            (\<exists>l2. run ext cf rg (map CalculateProfitScalers ps) (l, m) = Inr (l2, m)
                  \<and> mProfitScaler l2 q = 0))
       \<and> (p > 1 \<and> mProfitScaler l p = -1 \<and> mProfitScaler l (p - 1) = 0 \<longrightarrow>
            (\<exists>l3. initCalc rg p l = Inr l3 \<and> mProfitScaler l3 p = 0))"
proof (intro conjI impI)
  show "mProfitScaler l' p = 0" if "p \<noteq> s"
    using that assms(1) unfolding l'_def s_def by (simp add: calculateProfitScalers_def Let_def)
  show "mProfitScaler l' s = w" if "p \<noteq> s"
    using that assms(1) unfolding l'_def s_def w_def by (simp add: calculateProfitScalers_def Let_def)
  show "mProfitScaler l' s = (if w < 0 then 0 else w)" if "p = s"
    using that assms(1) unfolding l'_def s_def w_def by (simp add: calculateProfitScalers_def Let_def)
  show "\<forall>k. k \<noteq> p \<and> k \<noteq> s \<longrightarrow> mProfitScaler l' k = mProfitScaler l k"
    using assms(1) unfolding l'_def s_def by (simp add: calculateProfitScalers_def Let_def)
  show "\<exists>l2. run ext cf rg (map CalculateProfitScalers ps) (l, m) = Inr (l2, m) \<and> mProfitScaler l2 q = 0"
    if "q \<in> set ps \<and> q \<noteq> s"
    using that assms(1) run_calibration_zero [of l q ps ext cf rg m] unfolding s_def by simp
  show "\<exists>l3. initCalc rg p l = Inr l3 \<and> mProfitScaler l3 p = 0"
    if "p > 1 \<and> mProfitScaler l p = -1 \<and> mProfitScaler l (p - 1) = 0"
    using that by (simp add: initCalc_def Let_def)
qed

theorem calculateProfitScalers_entrant_witness:
  "mIsNewTech leafNew \<and> yr_to_per ext0 (mNewTechStartYear leafNew) = 2
   \<and> mProfitScaler (fst (calculateProfitScalers ext0 ''USA'' cf0 1 leafNew)) 1 = 0
   \<and> mProfitScaler (fst (calculateProfitScalers ext0 ''USA'' cf0 1 leafNew)) 2 = 1 / 8
   \<and> mProfitScaler (fst (calculateProfitScalers ext0 ''USA'' cf0 2 leafNew)) 2 = 1 / 8
   \<and> (1::int) \<in> set [0, 1]
   \<and> (\<exists>l2. run ext0 cf0 ''USA'' (map CalculateProfitScalers [0, 1]) (leafNew, mkt0) = Inr (l2, mkt0)
          \<and> mProfitScaler l2 1 = 0)
   \<and> mIsNewTech (leafNew\<lparr>mProfitScaler := (\<lambda>p. if p \<le> 1 then 0 else -1)\<rparr>)
   \<and> (\<exists>l3. initCalc ''USA'' 2 (leafNew\<lparr>mProfitScaler := (\<lambda>p. if p \<le> 1 then 0 else -1)\<rparr>) = Inr l3
          \<and> mProfitScaler l3 2 = 0)"
  using calculateProfitScalers_entrant [where ext = ext0 and rg = "''USA''" and cf = cf0 and p = 1
          and q = 1 and ps = "[0, 1]" and l = leafNew and m = mkt0]
        calculateProfitScalers_entrant [where ext = ext0 and rg = "''USA''" and cf = cf0 and p = 2
          and q = 1 and ps = "[0, 1]" and m = mkt0
          and l = leafNew]
        calculateProfitScalers_entrant [where ext = ext0 and rg = "''USA''" and cf = cf0 and p = 2
          and q = 1 and ps = "[0, 1]" and m = mkt0
          and l = "leafNew\<lparr>mProfitScaler := (\<lambda>p. if p \<le> 1 then 0 else -1)\<rparr>"]
  by (simp add: example_defs)

text \<open>
  C3 (as the claim states it) fails in its last part: the scaler of the start period need
  not be nonzero. Calibrating the entrant in its start period 2 with a parent profit of
  \<open>-1\<close> gives the share weight \<open>-1/4\<close>, which the function itself replaces by 0 with a
  warning; and an entrant whose ghost share is 0 gets the scaler \<open>0 / 2 = 0\<close>.
\<close>

theorem calculateProfitScalers_entrant_start_counterexample:
  "mIsNewTech leafNew \<and> yr_to_per ext0 (mNewTechStartYear leafNew) = 2
   \<and> calcShareWeight cf0 (mGhostShareNumeratorForLeaf leafNew) (- 1) 2 = - (1 / 4)
   \<and> mProfitScaler (fst (calculateProfitScalers
        (ext0\<lparr>parentCalibrationProfitForNewTech := (\<lambda>p. - 1)\<rparr>) ''USA'' cf0 2 leafNew)) 2 = 0
   \<and> snd (calculateProfitScalers
        (ext0\<lparr>parentCalibrationProfitForNewTech := (\<lambda>p. - 1)\<rparr>) ''USA'' cf0 2 leafNew)
       = [(WARNING, CalPriceTooLow ''USA'' ''Biomass'')]
   \<and> mProfitScaler (fst (calculateProfitScalers ext0 ''USA'' cf0 2
        (leafNew\<lparr>mGhostShareNumeratorForLeaf := 0\<rparr>))) 2 = 0"
  by (simp add: calculateProfitScalers_def Let_def example_defs)

subsection \<open>The carbon subsidy\<close>

text \<open>
  C8. When there is no \<^verbatim>\<open>CO2_LUC\<close> market for the region and period, so that
  \<^verbatim>\<open>getPrice\<close> returns \<^verbatim>\<open>NO_MARKET_PRICE\<close>, or when the carbon price is not
  positive, \<^verbatim>\<open>getCarbonSubsidy\<close> returns 0 whatever the carbon densities of the leaf
  are: the sentinel never enters the computation as a price.
\<close>

theorem getCarbonSubsidy_no_price:
  "(price m (''CO2_LUC'', rg, p) = None \<longrightarrow> getCarbonSubsidy ext m rg p l = 0)
   \<and> (getPrice ext m ''CO2_LUC'' rg p = NO_MARKET_PRICE ext \<or> getPrice ext m ''CO2_LUC'' rg p \<le> 0
        \<longrightarrow> getCarbonSubsidy ext m rg p l = 0)"
  by (auto simp add: getCarbonSubsidy_def getPrice_def Let_def)

theorem getCarbonSubsidy_no_price_witness:
  "price mkt0 (''CO2_LUC'', ''USA'', 2) = None
   \<and> getCarbonSubsidy ext0 mkt0 ''USA'' 2 leaf0 = 0
   \<and> getPrice ext0 (mkt1\<lparr>price := [(''CO2_LUC'', ''USA'', 2) \<mapsto> 0]\<rparr>) ''CO2_LUC'' ''USA'' 2 \<le> 0
   \<and> getCarbonSubsidy ext0 (mkt1\<lparr>price := [(''CO2_LUC'', ''USA'', 2) \<mapsto> 0]\<rparr>) ''USA'' 2 leaf0 = 0
   \<and> getPrice ext0 (mkt1\<lparr>price := [(''CO2_LUC'', ''USA'', 2) \<mapsto> 1000000000000]\<rparr>) ''CO2_LUC'' ''USA'' 2
        = NO_MARKET_PRICE ext0
   \<and> getCarbonSubsidy ext0 (mkt1\<lparr>price := [(''CO2_LUC'', ''USA'', 2) \<mapsto> 1000000000000]\<rparr>) ''USA'' 2 leaf0 = 0"
  using getCarbonSubsidy_no_price [where m = mkt0 and rg = "''USA''" and p = 2 and ext = ext0 and l = leaf0]
    getCarbonSubsidy_no_price [where m = "mkt1\<lparr>price := [(''CO2_LUC'', ''USA'', 2) \<mapsto> 0]\<rparr>" and rg = "''USA''" and p = 2 and ext = ext0 and l = leaf0]
    getCarbonSubsidy_no_price [where m = "mkt1\<lparr>price := [(''CO2_LUC'', ''USA'', 2) \<mapsto> 1000000000000]\<rparr>" and rg = "''USA''" and p = 2 and ext = ext0 and l = leaf0]
  by (simp add: example_defs getPrice_def)

lemma carbonSubsidyValue_nonneg:
  assumes "c > 0"
    and "mMinAboveGroundCDensity l \<le> actualAboveGroundCarbonDensity (mCarbonContentCalc l) (per_to_yr ext p)"
    and "mMinBelowGroundCDensity l \<le> actualBelowGroundCarbonDensity (mCarbonContentCalc l) (per_to_yr ext p)"
    and "mCarbonPriceIncreaseRate l p \<le> mSocialDiscountRate l"
    and "0 \<le> aboveGroundCarbonSubsidyDiscountFactor (mCarbonContentCalc l)"
    and "0 \<le> belowGroundCarbonSubsidyDiscountFactor (mCarbonContentCalc l)"
  shows "0 \<le> carbonSubsidyValue ext c p l"
proof -
  let ?cc = "mCarbonContentCalc l"
  let ?a = "actualAboveGroundCarbonDensity ?cc (per_to_yr ext p) - mMinAboveGroundCDensity l"
  let ?b = "actualBelowGroundCarbonDensity ?cc (per_to_yr ext p) - mMinBelowGroundCDensity l"
  have a: "0 \<le> ?a * aboveGroundCarbonSubsidyDiscountFactor ?cc"
    using assms(2,5) by (intro mult_nonneg_nonneg) simp_all
  have b: "0 \<le> ?b * belowGroundCarbonSubsidyDiscountFactor ?cc"
    using assms(3,6) by (intro mult_nonneg_nonneg) simp_all
  have pr: "0 \<le> c / dollar_conversion_75_90"
    using assms(1) by (simp add: dollar_conversion_75_90_def)
  have d: "0 \<le> mSocialDiscountRate l - mCarbonPriceIncreaseRate l p"
    using assms(4) by simp
  have s: "0 \<le> ?a * aboveGroundCarbonSubsidyDiscountFactor ?cc + ?b * belowGroundCarbonSubsidyDiscountFactor ?cc"
    using a b by (rule add_nonneg_nonneg)
  have cv: "0 \<le> conversionFactor"
    by (simp add: conversionFactor_def)
  have "0 \<le> (?a * aboveGroundCarbonSubsidyDiscountFactor ?cc + ?b * belowGroundCarbonSubsidyDiscountFactor ?cc)
            * (c / dollar_conversion_75_90) * (mSocialDiscountRate l - mCarbonPriceIncreaseRate l p)
            * conversionFactor"
    by (rule mult_nonneg_nonneg [OF mult_nonneg_nonneg [OF mult_nonneg_nonneg [OF s pr] d] cv])
  then show ?thesis by (simp add: carbonSubsidyValue_def Let_def)
qed

text \<open>
  C10 (as the code has it). When a \<^verbatim>\<open>CO2_LUC\<close> market exists with a positive price,
  the actual above- and below-ground carbon densities are at least the leaf's minimum
  densities, the social discount rate is at least the period's carbon price increase
  rate, and the two subsidy discount factors of the carbon content calculator are not
  negative, then the subsidy \<^verbatim>\<open>getCarbonSubsidy\<close> returns is not negative, which is
  what the function asserts. Unless the price is the sentinel, the value returned is the
  computed one, without any clamping.
\<close>

theorem getCarbonSubsidy_nonneg:
  assumes "price m (''CO2_LUC'', rg, p) = Some c" and "c > 0"
    and "mMinAboveGroundCDensity l \<le> actualAboveGroundCarbonDensity (mCarbonContentCalc l) (per_to_yr ext p)"
    and "mMinBelowGroundCDensity l \<le> actualBelowGroundCarbonDensity (mCarbonContentCalc l) (per_to_yr ext p)"
    and "mCarbonPriceIncreaseRate l p \<le> mSocialDiscountRate l"
    and "0 \<le> aboveGroundCarbonSubsidyDiscountFactor (mCarbonContentCalc l)"
    and "0 \<le> belowGroundCarbonSubsidyDiscountFactor (mCarbonContentCalc l)"
  shows "0 \<le> getCarbonSubsidy ext m rg p l
       \<and> (c \<noteq> NO_MARKET_PRICE ext \<longrightarrow> getCarbonSubsidy ext m rg p l = carbonSubsidyValue ext c p l)"
  using carbonSubsidyValue_nonneg [OF assms(2-7)] assms(1,2)
  by (simp add: getCarbonSubsidy_def getPrice_def Let_def)

theorem getCarbonSubsidy_nonneg_witness:
  "price mkt1 (''CO2_LUC'', ''USA'', 2) = Some (2212 / 100) \<and> (2212 / 100 :: real) > 0
   \<and> mMinAboveGroundCDensity leaf0 \<le> actualAboveGroundCarbonDensity (mCarbonContentCalc leaf0) (per_to_yr ext0 2)
   \<and> mMinBelowGroundCDensity leaf0 \<le> actualBelowGroundCarbonDensity (mCarbonContentCalc leaf0) (per_to_yr ext0 2)
   \<and> mCarbonPriceIncreaseRate leaf0 2 \<le> mSocialDiscountRate leaf0
   \<and> 0 \<le> aboveGroundCarbonSubsidyDiscountFactor (mCarbonContentCalc leaf0)
   \<and> 0 \<le> belowGroundCarbonSubsidyDiscountFactor (mCarbonContentCalc leaf0)
   \<and> 2212 / 100 \<noteq> NO_MARKET_PRICE ext0
   \<and> 0 \<le> getCarbonSubsidy ext0 mkt1 ''USA'' 2 leaf0
   \<and> getCarbonSubsidy ext0 mkt1 ''USA'' 2 leaf0 = 2800000"
  using getCarbonSubsidy_nonneg [where m = mkt1 and rg = "''USA''" and p = 2 and c = "2212 / 100"
      and l = leaf0 and ext = ext0]
  by (simp add: example_defs carbonSubsidyValue_def dollar_conversion_75_90_def conversionFactor_def)

text \<open>
  C10 (as the claim states it) fails: its hypotheses leave the discount factors of the
  carbon content calculator open. With an above-ground discount factor of \<open>-1\<close> all of
  them hold and the subsidy is \<open>-400000\<close>.
\<close>

theorem getCarbonSubsidy_negative_discount_factor_counterexample:
  "price mkt1 (''CO2_LUC'', ''USA'', 2) = Some (2212 / 100) \<and> (2212 / 100 :: real) > 0
   \<and> mMinAboveGroundCDensity leaf0
        \<le> actualAboveGroundCarbonDensity (carbon0\<lparr>aboveGroundCarbonSubsidyDiscountFactor := - 1\<rparr>) (per_to_yr ext0 2)
   \<and> mMinBelowGroundCDensity leaf0
        \<le> actualBelowGroundCarbonDensity (carbon0\<lparr>aboveGroundCarbonSubsidyDiscountFactor := - 1\<rparr>) (per_to_yr ext0 2)
   \<and> mCarbonPriceIncreaseRate leaf0 2 \<le> mSocialDiscountRate leaf0
   \<and> getCarbonSubsidy ext0 mkt1 ''USA'' 2
        (leaf0\<lparr>mCarbonContentCalc := carbon0\<lparr>aboveGroundCarbonSubsidyDiscountFactor := - 1\<rparr>\<rparr>) = - 400000
   \<and> \<not> 0 \<le> getCarbonSubsidy ext0 mkt1 ''USA'' 2
        (leaf0\<lparr>mCarbonContentCalc := carbon0\<lparr>aboveGroundCarbonSubsidyDiscountFactor := - 1\<rparr>\<rparr>)"
  by (simp add: example_defs getCarbonSubsidy_def getPrice_def carbonSubsidyValue_def
      dollar_conversion_75_90_def conversionFactor_def Let_def)

text \<open>
  Without the hypothesis on the densities the subsidy can be negative as well: a minimum
  above-ground density of 10 against an actual density of 5.
\<close>

lemma getCarbonSubsidy_below_minimum:
  "getCarbonSubsidy ext0 mkt1 ''USA'' 2 (leaf0\<lparr>mMinAboveGroundCDensity := 10\<rparr>) = - 800000"
  by (simp add: example_defs subsidy_defs Let_def)

subsection \<open>The profit rate\<close>

lemma call_profitRate_frame:
  assumes "call ext cf rg op (l, m) = Inr (l', m')"
  shows "(\<exists>pn r p. op = SetProfitRate pn r p \<and> l' = setProfitRate ext m rg pn r p l)
         \<or> mProfitRate l' = mProfitRate l"
  using assms
  by (cases op) (auto simp add: leaf_op_defs Let_def split: if_splits)

lemma setProfitRate_nonneg:
  "0 \<le> mProfitRate l q \<Longrightarrow> 0 \<le> mProfitRate (setProfitRate ext m rg pn r p l) q"
  by (simp add: setProfitRate_def Let_def)

lemma call_profitRate_nonneg:
  assumes "call ext cf rg op (l, m) = Inr (l', m')" and "\<forall>q. 0 \<le> mProfitRate l q"
  shows "\<forall>q. 0 \<le> mProfitRate l' q"
  using call_profitRate_frame [OF assms(1)] assms(2)
  by (auto simp add: setProfitRate_nonneg)

lemma run_profitRate_nonneg:
  "run ext cf rg ops s = Inr s' \<Longrightarrow> \<forall>q. 0 \<le> mProfitRate (fst s) q
     \<Longrightarrow> \<forall>q. 0 \<le> mProfitRate (fst s') q"
proof (induction ops arbitrary: s)
  case Nil
  then show ?case by simp
next
  case (Cons op ops)
  obtain l m where s: "s = (l, m)" by (cases s)
  from Cons.prems(1) obtain s1 where c: "call ext cf rg op s = Inr s1"
    and r: "run ext cf rg ops s1 = Inr s'"
    by (auto split: sum.splits)
  obtain l1 m1 where s1: "s1 = (l1, m1)" by (cases s1)
  have "\<forall>q. 0 \<le> mProfitRate l1 q"
    using call_profitRate_nonneg [of ext cf rg op l m l1 m1] c Cons.prems(2) s s1 by simp
  then show ?case using Cons.IH [OF r] s1 by simp
qed

text \<open>
  C5. \<^verbatim>\<open>setProfitRate\<close> stores the raw profit rate, less the price of the land
  expansion cost market when the leaf has one, plus the carbon subsidy, floored at 0. No
  other call changes a profit rate, so profit rates that are not negative stay so along
  every sequence of calls.
\<close>

theorem profitRate_nonneg:
  fixes ext :: externals and cf :: discrete_choice and rg pn :: string and raw :: real and p :: int
    and l l' :: leaf and m m' :: marketplace and ops :: "leaf_op list"
  shows "mProfitRate (setProfitRate ext m rg pn raw p l) p
           = max (raw - (if mIsLandExpansionCost l
                         then getPrice ext m (mLandExpansionCostName l) rg p else 0)
                  + getCarbonSubsidy ext m rg p l) 0
       \<and> 0 \<le> mProfitRate (setProfitRate ext m rg pn raw p l) p
       \<and> ((\<forall>q. 0 \<le> mProfitRate l q) \<and> run ext cf rg ops (l, m) = Inr (l', m')
             \<longrightarrow> (\<forall>q. 0 \<le> mProfitRate l' q))"
proof (intro conjI impI)
  show "mProfitRate (setProfitRate ext m rg pn raw p l) p
           = max (raw - (if mIsLandExpansionCost l
                         then getPrice ext m (mLandExpansionCostName l) rg p else 0)
                  + getCarbonSubsidy ext m rg p l) 0"
    by (simp add: setProfitRate_def Let_def)
  show "0 \<le> mProfitRate (setProfitRate ext m rg pn raw p l) p"
    by (simp add: setProfitRate_def Let_def)
  assume "(\<forall>q. 0 \<le> mProfitRate l q) \<and> run ext cf rg ops (l, m) = Inr (l', m')"
  then show "\<forall>q. 0 \<le> mProfitRate l' q"
    using run_profitRate_nonneg [of ext cf rg ops "(l, m)" "(l', m')"] by simp
qed

theorem profitRate_nonneg_witness:
  "(\<forall>q. 0 \<le> mProfitRate leaf0 q)
   \<and> (\<exists>s'. run ext0 cf0 ''USA'' ops0 (leaf0, mkt1) = Inr s' \<and> (\<forall>q. 0 \<le> mProfitRate (fst s') q))
   \<and> mProfitRate (setProfitRate ext0 mkt1 ''USA'' ''Corn'' (- 5) 2 leaf0) 2 = 2799995
   \<and> mProfitRate (setProfitRate ext0 mkt0 ''USA'' ''Corn'' (- 5) 2 leaf0) 2 = 0"
proof -
  have inv: "\<forall>q. 0 \<le> mProfitRate leaf0 q"
    by (simp add: example_defs)
  obtain s' where r: "run ext0 cf0 ''USA'' ops0 (leaf0, mkt1) = Inr s'"
    by (simp add: ops0_def leaf_op_defs Let_def example_defs)
  have "\<forall>q. 0 \<le> mProfitRate (fst s') q"
    using profitRate_nonneg [where ext = ext0 and cf = cf0 and rg = "''USA''" and ops = ops0
        and l = leaf0 and m = mkt1 and l' = "fst s'" and m' = "snd s'"] inv r
    by simp
  moreover have "mProfitRate (setProfitRate ext0 mkt1 ''USA'' ''Corn'' (- 5) 2 leaf0) 2 = 2799995"
    by (simp add: setProfitRate_def getCarbonSubsidy_def getPrice_def carbonSubsidyValue_def
        dollar_conversion_75_90_def conversionFactor_def Let_def example_defs)
  moreover have "mProfitRate (setProfitRate ext0 mkt0 ''USA'' ''Corn'' (- 5) 2 leaf0) 2 = 0"
    by (simp add: setProfitRate_def getCarbonSubsidy_def getPrice_def carbonSubsidyValue_def
        dollar_conversion_75_90_def conversionFactor_def Let_def example_defs)
  ultimately show ?thesis using inv r by blast
qed

subsection \<open>Trial evaluation leaves the calibration state alone\<close>

lemma call_profitScaler_frame:
  assumes "call ext cf rg op (l, m) = Inr (l', m')"
    and "\<forall>p. op \<noteq> CalculateProfitScalers p" and "\<forall>p. op \<noteq> InitCalc p"
  shows "mProfitScaler l' = mProfitScaler l"
  using assms
  by (cases op) (auto simp add: leaf_op_defs Let_def split: if_splits)

lemma call_trial:
  assumes "isTrialEvaluation op"
  shows "\<exists>l' m'. call ext cf rg op (l, m) = Inr (l', m')
           \<and> mProfitScaler l' = mProfitScaler l \<and> mShare l' = mShare l"
  using assms
  by (cases op) (auto simp add: leaf_op_defs Let_def split: if_splits)

lemma run_trial:
  "list_all isTrialEvaluation ops \<Longrightarrow>
     \<exists>l' m'. run ext cf rg ops (l, m) = Inr (l', m')
       \<and> mProfitScaler l' = mProfitScaler l \<and> mShare l' = mShare l"
proof (induction ops arbitrary: l m)
  case Nil
  then show ?case by simp
next
  case (Cons op ops)
  then have t: "isTrialEvaluation op" and ts: "list_all isTrialEvaluation ops"
    by simp_all
  from call_trial [OF t, of ext cf rg l m]
  obtain l1 m1 where c: "call ext cf rg op (l, m) = Inr (l1, m1)"
    and f1: "mProfitScaler l1 = mProfitScaler l" "mShare l1 = mShare l"
    by blast
  from Cons.IH [OF ts, of l1 m1]
  obtain l' m' where r: "run ext cf rg ops (l1, m1) = Inr (l', m')"
    and f2: "mProfitScaler l' = mProfitScaler l1" "mShare l' = mShare l1"
    by blast
  show ?case using c r f1 f2 by simp
qed

text \<open>
  C9. \<^verbatim>\<open>calcLandShares\<close> changes neither the leaf nor the marketplace, so it does not
  change the share. \<^verbatim>\<open>setProfitRate\<close> and \<^verbatim>\<open>calcLandAllocation\<close> do not change
  the profit scaler. Every sequence of these three calls returns, with the profit scalers
  and the shares it started from. A call that changes a profit scaler is
  \<^verbatim>\<open>calculateProfitScalers\<close> or \<^verbatim>\<open>initCalc\<close>.
\<close>

theorem trial_evaluation_frame:
  fixes ext :: externals and cf :: discrete_choice and rg pn :: string and r a :: real and p :: int
    and l l1 :: leaf and m m1 :: marketplace and ops :: "leaf_op list" and op :: leaf_op
  shows "call ext cf rg (CalcLandShares p) (l, m) = Inr (l, m)
       \<and> mProfitScaler (setProfitRate ext m rg pn r p l) = mProfitScaler l
       \<and> mProfitScaler (fst (calcLandAllocation rg a p (l, m))) = mProfitScaler l
       \<and> (list_all isTrialEvaluation ops \<longrightarrow>
            (\<exists>l' m'. run ext cf rg ops (l, m) = Inr (l', m')
               \<and> mProfitScaler l' = mProfitScaler l \<and> mShare l' = mShare l))
       \<and> (call ext cf rg op (l, m) = Inr (l1, m1) \<and> mProfitScaler l1 \<noteq> mProfitScaler l \<longrightarrow>
            (\<exists>q. op = CalculateProfitScalers q \<or> op = InitCalc q))"
proof (intro conjI impI)
  show "call ext cf rg (CalcLandShares p) (l, m) = Inr (l, m)" by simp
  show "mProfitScaler (setProfitRate ext m rg pn r p l) = mProfitScaler l"
    by (simp add: setProfitRate_def Let_def)
  show "mProfitScaler (fst (calcLandAllocation rg a p (l, m))) = mProfitScaler l"
    by (simp add: calcLandAllocation_def addToDemand_def Let_def)
next
  assume "list_all isTrialEvaluation ops"
  then show "\<exists>l' m'. run ext cf rg ops (l, m) = Inr (l', m')
               \<and> mProfitScaler l' = mProfitScaler l \<and> mShare l' = mShare l"
    by (rule run_trial)
next
  assume a: "call ext cf rg op (l, m) = Inr (l1, m1) \<and> mProfitScaler l1 \<noteq> mProfitScaler l"
  show "\<exists>q. op = CalculateProfitScalers q \<or> op = InitCalc q"
  proof (rule ccontr)
    assume "\<not> (\<exists>q. op = CalculateProfitScalers q \<or> op = InitCalc q)"
    then have "\<forall>p. op \<noteq> CalculateProfitScalers p" and "\<forall>p. op \<noteq> InitCalc p"
      by simp_all
    with a call_profitScaler_frame [of ext cf rg op l m l1 m1] show False
      by simp
  qed
qed

theorem trial_evaluation_frame_witness:
  "list_all isTrialEvaluation ops1
   \<and> (\<exists>l' m'. run ext0 cf0 ''USA'' ops1 (leaf0, mkt1) = Inr (l', m')
        \<and> mProfitScaler l' = mProfitScaler leaf0 \<and> mShare l' = mShare leaf0
        \<and> mProfitRate l' 1 = 9 \<and> mLandAllocation l' 1 = 100)
   \<and> (\<exists>l1 m1. call ext0 cf0 ''USA'' (InitCalc 2) (leaf0, mkt1) = Inr (l1, m1)
        \<and> mProfitScaler l1 \<noteq> mProfitScaler leaf0)"
proof -
  have t: "list_all isTrialEvaluation ops1"
    by (simp add: ops1_def)
  from trial_evaluation_frame [where ext = ext0 and cf = cf0 and rg = "''USA''" and ops = ops1
      and l = leaf0 and m = mkt1] t
  obtain l' m' where r: "run ext0 cf0 ''USA'' ops1 (leaf0, mkt1) = Inr (l', m')"
    and f: "mProfitScaler l' = mProfitScaler leaf0" "mShare l' = mShare leaf0"
    by blast
  have "run ext0 cf0 ''USA'' ops1 (leaf0, mkt1) = Inr (l', m') \<longrightarrow>
          mProfitRate l' 1 = 9 \<and> mLandAllocation l' 1 = 100"
    by (auto simp add: ops1_def leaf_op_defs getCarbonSubsidy_def getPrice_def Let_def example_defs)
  with r have v: "mProfitRate l' 1 = 9" "mLandAllocation l' 1 = 100" by simp_all
  have "\<exists>l1 m1. call ext0 cf0 ''USA'' (InitCalc 2) (leaf0, mkt1) = Inr (l1, m1)
        \<and> mProfitScaler l1 \<noteq> mProfitScaler leaf0"
    by (simp add: initCalc_def Let_def example_defs fun_eq_iff)
  with t r f v show ?thesis by blast
qed

end
